theory Spec2Isabelle
  imports Complex_Main
begin

section \<open>Python values, dictionaries and exceptions\<close>

text \<open>
  The analyzer of \<^verbatim>\<open>terraform/ai_analysis_workflow.py\<close> works on loosely typed rows:
  dictionaries from column names to JSON values. A value is \<^verbatim>\<open>None\<close>, a boolean, an
  integer, a float or a string. Floats are modelled by exact reals: rounding of the
  binary representation is not part of the model, so the literals \<^verbatim>\<open>1.1\<close>,
  \<^verbatim>\<open>0.9\<close>, \<^verbatim>\<open>1.5\<close>, \<^verbatim>\<open>0.7\<close> and \<^verbatim>\<open>0.3\<close> of the source are the rationals
  they denote.
\<close>

datatype pyval = PNone | PBool bool | PInt int | PFloat real | PStr string

text \<open>
  The exceptions the modelled code can raise. All of them are subclasses of Python's
  \<^verbatim>\<open>Exception\<close>; \<open>ExternalError\<close> stands for a failure of one of the external services
  (the data store, the language model, the notifier).
\<close>

datatype error = KeyError string | TypeError | IndexError | ZeroDivisionError
  | ExternalError string

type_synonym dict = "(string \<times> pyval) list"

fun ebind :: "error + 'a \<Rightarrow> ('a \<Rightarrow> error + 'b) \<Rightarrow> error + 'b" where
  "ebind (Inl e) f = Inl e"
| "ebind (Inr x) f = f x"

text \<open>\<^verbatim>\<open>d[k]\<close>, \<^verbatim>\<open>d.get(k, default)\<close> and \<^verbatim>\<open>d.get(k)\<close>.\<close>

definition subscript :: "dict \<Rightarrow> string \<Rightarrow> error + pyval" where
  "subscript d k = (case map_of d k of None \<Rightarrow> Inl (KeyError k) | Some v \<Rightarrow> Inr v)"

definition get_or :: "dict \<Rightarrow> string \<Rightarrow> pyval \<Rightarrow> pyval" where
  "get_or d k dflt = (case map_of d k of None \<Rightarrow> dflt | Some v \<Rightarrow> v)"

definition dict_get :: "dict \<Rightarrow> string \<Rightarrow> pyval" where
  "dict_get d k = get_or d k PNone"

text \<open>Truth value of a value in a condition (\<^verbatim>\<open>if v\<close>, \<^verbatim>\<open>a and b\<close>, \<^verbatim>\<open>bool(v)\<close>).\<close>

fun truthy :: "pyval \<Rightarrow> bool" where
  "truthy PNone = False"
| "truthy (PBool b) = b"
| "truthy (PInt i) = (i \<noteq> 0)"
| "truthy (PFloat r) = (r \<noteq> 0)"
| "truthy (PStr s) = (s \<noteq> [])"

text \<open>
  The number a value stands for in arithmetic and in order comparisons; booleans are
  the integers 0 and 1. \<^verbatim>\<open>None\<close> and strings are not numbers: using them raises
  \<^verbatim>\<open>TypeError\<close>.
\<close>

fun num_of :: "pyval \<Rightarrow> real option" where
  "num_of (PInt i) = Some (real_of_int i)"
| "num_of (PFloat r) = Some r"
| "num_of (PBool b) = Some (if b then 1 else 0)"
| "num_of PNone = None"
| "num_of (PStr s) = None"

text \<open>\<^verbatim>\<open>v > c\<close> and \<^verbatim>\<open>v < c\<close> against a numeric literal \<open>c\<close>.\<close>

definition py_gt :: "pyval \<Rightarrow> real \<Rightarrow> error + bool" where
  "py_gt v c = (case num_of v of None \<Rightarrow> Inl TypeError | Some x \<Rightarrow> Inr (c < x))"

definition py_lt :: "pyval \<Rightarrow> real \<Rightarrow> error + bool" where
  "py_lt v c = (case num_of v of None \<Rightarrow> Inl TypeError | Some x \<Rightarrow> Inr (x < c))"

text \<open>\<^verbatim>\<open>sum(vs)\<close>: the first element that is not a number raises.\<close>

fun py_sum :: "pyval list \<Rightarrow> error + real" where
  "py_sum [] = Inr 0"
| "py_sum (v # vs) =
     (case num_of v of
        None \<Rightarrow> Inl TypeError
      | Some x \<Rightarrow> ebind (py_sum vs) (\<lambda>s. Inr (x + s)))"

text \<open>\<^verbatim>\<open>x / n\<close> for a count \<open>n\<close>.\<close>

definition py_truediv :: "real \<Rightarrow> nat \<Rightarrow> error + real" where
  "py_truediv x n = (if n = 0 then Inl ZeroDivisionError else Inr (x / real n))"

text \<open>\<^verbatim>\<open>a / b\<close> on two values.\<close>

definition py_div :: "pyval \<Rightarrow> pyval \<Rightarrow> error + real" where
  "py_div a b =
     (case (num_of a, num_of b) of
        (Some x, Some y) \<Rightarrow> if y = 0 then Inl ZeroDivisionError else Inr (x / y)
      | _ \<Rightarrow> Inl TypeError)"

text \<open>\<^verbatim>\<open>xs[i]\<close> on a list: a negative index counts from the end.\<close>

definition py_index :: "'a list \<Rightarrow> int \<Rightarrow> error + 'a" where
  "py_index xs i =
     (if 0 \<le> i \<and> i < int (length xs) then Inr (xs ! nat i)
      else if i < 0 \<and> - int (length xs) \<le> i then Inr (xs ! nat (int (length xs) + i))
      else Inl IndexError)"

section \<open>The snapshot and the pattern report\<close>

text \<open>
  \<^verbatim>\<open>_fetch_user_data\<close> returns the four record groups; \<^verbatim>\<open>_analyze_patterns\<close> returns a
  dictionary with four fixed keys, each holding the dictionary of one category.
\<close>

record user_data =
  customer :: dict
  developer :: dict
  revenue :: "dict list"
  website :: "dict list"

record patterns =
  revenue_patterns :: dict
  development_patterns :: dict
  customer_patterns :: dict
  website_patterns :: dict

section \<open>Helper methods\<close>

definition detect_seasonality :: "dict list \<Rightarrow> string" where
  "detect_seasonality revenue_data =
     (if length revenue_data < 12 then ''insufficient_data'' else ''no_seasonality'')"

definition categorize_activity :: "pyval \<Rightarrow> error + string" where
  "categorize_activity score =
     ebind (py_gt score 100) (\<lambda>b1. if b1 then Inr ''very_active'' else
     ebind (py_gt score 50) (\<lambda>b2. if b2 then Inr ''active'' else
     ebind (py_gt score 20) (\<lambda>b3. if b3 then Inr ''moderate'' else Inr ''low'')))"

definition categorize_ltv :: "pyval \<Rightarrow> error + string" where
  "categorize_ltv ltv =
     ebind (py_gt ltv 10000) (\<lambda>b1. if b1 then Inr ''enterprise'' else
     ebind (py_gt ltv 1000) (\<lambda>b2. if b2 then Inr ''premium'' else
     ebind (py_gt ltv 100) (\<lambda>b3. if b3 then Inr ''standard'' else Inr ''basic'')))"

definition days :: "string list" where
  "days = [''Sunday'', ''Monday'', ''Tuesday'', ''Wednesday'', ''Thursday'', ''Friday'',
     ''Saturday'']"

text \<open>
  \<^verbatim>\<open>days[day_num] if 0 <= day_num <= 6 else 'Unknown'\<close>. The comparison raises on a
  value that is not a number; the list index raises on a float.
\<close>

definition day_name :: "pyval \<Rightarrow> error + string" where
  "day_name day_num =
     (case num_of day_num of
        None \<Rightarrow> Inl TypeError
      | Some x \<Rightarrow>
          if 0 \<le> x \<and> x \<le> 6 then
            (case day_num of
               PInt i \<Rightarrow> py_index days i
             | PBool b \<Rightarrow> py_index days (if b then 1 else 0)
             | _ \<Rightarrow> Inl TypeError)
          else Inr ''Unknown'')"

text \<open>
  \<^verbatim>\<open>_detect_trend\<close>: the mean of the first \<open>len(values)//2\<close> values against the mean of
  the rest.
\<close>

definition detect_trend :: "pyval list \<Rightarrow> error + string" where
  "detect_trend vals =
     (if vals = [] \<or> length vals < 2 then Inr ''insufficient_data''
      else
        ebind (py_sum (take (length vals div 2) vals)) (\<lambda>s1.
        ebind (py_truediv s1 (length vals div 2)) (\<lambda>first_half.
        ebind (py_sum (drop (length vals div 2) vals)) (\<lambda>s2.
        ebind (py_truediv s2 (length vals - length vals div 2)) (\<lambda>second_half.
          if first_half * (11 / 10) < second_half then Inr ''growing''
          else if second_half < first_half * (9 / 10) then Inr ''declining''
          else Inr ''stable'')))))"

text \<open>
  One term of the generator in \<^verbatim>\<open>_categorize_growth\<close>:
  \<^verbatim>\<open>d['new_users'] / d['users'] if d['users'] > 0 else 0\<close>.
\<close>

definition new_user_ratio_of :: "dict \<Rightarrow> error + real" where
  "new_user_ratio_of d =
     ebind (subscript d ''users'') (\<lambda>u.
     ebind (py_gt u 0) (\<lambda>positive.
       if positive then
         ebind (subscript d ''new_users'') (\<lambda>n.
         ebind (subscript d ''users'') (\<lambda>u'. py_div n u'))
       else Inr 0))"

fun sum_new_user_ratio :: "dict list \<Rightarrow> error + real" where
  "sum_new_user_ratio [] = Inr 0"
| "sum_new_user_ratio (d # ds) =
     ebind (new_user_ratio_of d) (\<lambda>x.
     ebind (sum_new_user_ratio ds) (\<lambda>s. Inr (x + s)))"

definition categorize_growth :: "dict list \<Rightarrow> error + string" where
  "categorize_growth website_data =
     (if website_data = [] then Inr ''no_data''
      else
        ebind (sum_new_user_ratio website_data) (\<lambda>ratio_sum.
        ebind (py_truediv ratio_sum (length website_data)) (\<lambda>new_user_ratio.
          if 7 / 10 < new_user_ratio then Inr ''early_stage''
          else if 3 / 10 < new_user_ratio then Inr ''growth_stage''
          else Inr ''mature_stage'')))"

section \<open>The pattern classifier\<close>

text \<open>
  \<^verbatim>\<open>[r['growth_rate'] for r in revenue_data if r.get('growth_rate')]\<close>: the guard is
  the truth value of the field, so the subscript of a kept row cannot raise.
\<close>

definition growth_rates_of :: "dict list \<Rightarrow> pyval list" where
  "growth_rates_of revenue_data =
     map (\<lambda>r. dict_get r ''growth_rate'')
       (filter (\<lambda>r. truthy (dict_get r ''growth_rate'')) revenue_data)"

text \<open>\<^verbatim>\<open>all(abs(r) < c for r in vs)\<close>: stops at the first value that fails the test.\<close>

fun all_abs_lt :: "real \<Rightarrow> pyval list \<Rightarrow> error + bool" where
  "all_abs_lt c [] = Inr True"
| "all_abs_lt c (v # vs) =
     (case num_of v of
        None \<Rightarrow> Inl TypeError
      | Some x \<Rightarrow> if \<bar>x\<bar> < c then all_abs_lt c vs else Inr False)"

definition analyze_revenue_patterns :: "dict list \<Rightarrow> error + dict" where
  "analyze_revenue_patterns revenue_data =
     (if revenue_data = [] then Inr [(''status'', PStr ''no_data'')]
      else
        ebind (subscript (last revenue_data) ''revenue'') (\<lambda>latest_revenue.
        let growth_rates = growth_rates_of revenue_data in
        ebind (py_sum growth_rates) (\<lambda>trend_sum.
        ebind (if growth_rates \<noteq> []
               then ebind (py_sum growth_rates) (\<lambda>s.
                    ebind (py_truediv s (length growth_rates)) (\<lambda>q. Inr (PFloat q)))
               else Inr (PInt 0)) (\<lambda>avg_growth_rate.
        ebind (all_abs_lt 20 growth_rates) (\<lambda>all_small.
        Inr [(''trend'', PStr (if 0 < trend_sum then ''growing'' else ''declining'')),
             (''avg_growth_rate'', avg_growth_rate),
             (''seasonality'', PStr (detect_seasonality revenue_data)),
             (''revenue_stability'', PStr (if all_small then ''stable'' else ''volatile'')),
             (''current_mrr'', latest_revenue)])))))"

definition analyze_dev_patterns :: "dict \<Rightarrow> error + dict" where
  "analyze_dev_patterns dev_data =
     (if dev_data = [] then Inr [(''status'', PStr ''no_data'')]
      else
        ebind (categorize_activity (get_or dev_data ''productivity_score'' (PInt 0)))
          (\<lambda>activity_level.
        ebind (py_lt (get_or dev_data ''avg_pr_merge_time'' (PInt 0)) 2) (\<lambda>quick.
        ebind (day_name (get_or dev_data ''most_active_day'' (PInt 0))) (\<lambda>day.
        ebind (py_gt (get_or dev_data ''total_prs'' (PInt 0)) 10) (\<lambda>many_prs.
        Inr [(''activity_level'', PStr activity_level),
             (''pr_efficiency'', PStr (if quick then ''efficient'' else ''needs_improvement'')),
             (''most_active_day'', PStr day),
             (''most_active_hour'', get_or dev_data ''most_active_hour'' (PInt 0)),
             (''collaboration_style'', PStr (if many_prs then ''active'' else ''passive''))])))))"

definition analyze_customer_patterns :: "dict \<Rightarrow> error + dict" where
  "analyze_customer_patterns customer_data =
     (if customer_data = [] then Inr [(''status'', PStr ''no_data'')]
      else
        ebind (categorize_ltv (get_or customer_data ''lifetime_value'' (PInt 0)))
          (\<lambda>customer_value.
        ebind (py_gt (get_or customer_data ''total_invoices'' (PInt 0)) 10) (\<lambda>many_invoices.
        Inr [(''customer_value'', PStr customer_value),
             (''engagement'', get_or customer_data ''engagement_level'' (PStr ''unknown'')),
             (''purchase_frequency'',
                PStr (if many_invoices then ''frequent'' else ''occasional'')),
             (''cross_platform'',
                PBool (truthy (dict_get customer_data ''stripe_customer_id'') \<and>
                       truthy (dict_get customer_data ''shopify_customer_id'')))])))"

text \<open>\<^verbatim>\<open>sum(d[k] for d in rows)\<close> and \<^verbatim>\<open>[d[k] for d in rows]\<close>.\<close>

fun sum_field :: "string \<Rightarrow> dict list \<Rightarrow> error + real" where
  "sum_field k [] = Inr 0"
| "sum_field k (d # ds) =
     ebind (subscript d k) (\<lambda>v.
       case num_of v of
         None \<Rightarrow> Inl TypeError
       | Some x \<Rightarrow> ebind (sum_field k ds) (\<lambda>s. Inr (x + s)))"

fun field_values :: "string \<Rightarrow> dict list \<Rightarrow> error + pyval list" where
  "field_values k [] = Inr []"
| "field_values k (d # ds) =
     ebind (subscript d k) (\<lambda>v.
     ebind (field_values k ds) (\<lambda>vs. Inr (v # vs)))"

text \<open>\<^verbatim>\<open>any(d[k] > c for d in rows)\<close>: stops at the first row that passes the test.\<close>

fun any_field_gt :: "string \<Rightarrow> real \<Rightarrow> dict list \<Rightarrow> error + bool" where
  "any_field_gt k c [] = Inr False"
| "any_field_gt k c (d # ds) =
     ebind (subscript d k) (\<lambda>v.
     ebind (py_gt v c) (\<lambda>b. if b then Inr True else any_field_gt k c ds))"

definition analyze_website_patterns :: "dict list \<Rightarrow> error + dict" where
  "analyze_website_patterns website_data =
     (if website_data = [] then Inr [(''status'', PStr ''no_data'')]
      else
        ebind (sum_field ''daily_users'' website_data) (\<lambda>users_sum.
        ebind (py_truediv users_sum (length website_data)) (\<lambda>avg_users.
        ebind (field_values ''bounce_rate'' website_data) (\<lambda>bounce_rates.
        ebind (field_values ''daily_users'' website_data) (\<lambda>daily_users.
        ebind (detect_trend daily_users) (\<lambda>traffic_trend.
        ebind (py_sum bounce_rates) (\<lambda>bounce_sum.
        ebind (py_truediv bounce_sum (length bounce_rates)) (\<lambda>avg_bounce.
        ebind (any_field_gt ''sessions_per_user'' (3 / 2) website_data) (\<lambda>returning.
        ebind (categorize_growth website_data) (\<lambda>growth_phase.
        Inr [(''traffic_trend'', PStr traffic_trend),
             (''engagement_quality'', PStr (if avg_bounce < 50 then ''high'' else ''low'')),
             (''user_retention'', PStr (if returning then ''good'' else ''needs_work'')),
             (''growth_phase'', PStr growth_phase)]))))))))))"

definition analyze_patterns :: "user_data \<Rightarrow> error + patterns" where
  "analyze_patterns data =
     ebind (analyze_revenue_patterns (revenue data)) (\<lambda>rp.
     ebind (analyze_dev_patterns (developer data)) (\<lambda>dp.
     ebind (analyze_customer_patterns (customer data)) (\<lambda>cp.
     ebind (analyze_website_patterns (website data)) (\<lambda>wp.
     Inr \<lparr>revenue_patterns = rp, development_patterns = dp,
          customer_patterns = cp, website_patterns = wp\<rparr>))))"

section \<open>User type and scores\<close>

text \<open>
  \<^verbatim>\<open>dev_score > 50 and revenue > 1000\<close> evaluates its second operand only when the
  first is true.
\<close>

definition determine_user_type :: "patterns \<Rightarrow> error + string" where
  "determine_user_type p =
     (let dev_score = get_or (development_patterns p) ''productivity_score'' (PInt 0);
          mrr = get_or (revenue_patterns p) ''current_mrr'' (PInt 0)
      in
        ebind (py_gt dev_score 50) (\<lambda>d1.
        ebind (if d1 then py_gt mrr 1000 else Inr False) (\<lambda>founder.
          if founder then Inr ''technical_founder''
          else
            ebind (py_gt dev_score 50) (\<lambda>d2.
              if d2 then Inr ''developer''
              else
                ebind (py_gt mrr 5000) (\<lambda>r1.
                  if r1 then Inr ''enterprise_customer''
                  else
                    ebind (py_gt mrr 500) (\<lambda>r2.
                      if r2 then Inr ''business_customer''
                      else Inr ''standard_user''))))))"

text \<open>
  The running \<^verbatim>\<open>score\<close> of \<^verbatim>\<open>_calculate_health_score\<close> before the final
  \<^verbatim>\<open>max(0, min(100, score))\<close>.
\<close>

definition health_raw :: "patterns \<Rightarrow> int" where
  "health_raw p =
     (let score = 50;
          score = (if dict_get (revenue_patterns p) ''trend'' = PStr ''growing''
                   then score + 20
                   else if dict_get (revenue_patterns p) ''trend'' = PStr ''declining''
                   then score - 20 else score);
          score = (if dict_get (customer_patterns p) ''engagement'' = PStr ''high''
                   then score + 15
                   else if dict_get (customer_patterns p) ''engagement'' = PStr ''low''
                   then score - 15 else score);
          score = (if dict_get (development_patterns p) ''activity_level''
                        \<in> set [PStr ''active'', PStr ''very_active'']
                   then score + 15 else score)
      in score)"

definition calculate_health_score :: "patterns \<Rightarrow> int" where
  "calculate_health_score p = max 0 (min 100 (health_raw p))"

text \<open>The counter \<^verbatim>\<open>risk_factors\<close> of \<^verbatim>\<open>_calculate_churn_risk\<close> before the tiers.\<close>

definition risk_factors :: "patterns \<Rightarrow> int" where
  "risk_factors p =
     (let n = 0;
          n = (if dict_get (revenue_patterns p) ''trend'' = PStr ''declining''
               then n + 2 else n);
          n = (if dict_get (customer_patterns p) ''engagement'' = PStr ''low''
               then n + 2 else n);
          n = (if dict_get (website_patterns p) ''engagement_quality'' = PStr ''low''
               then n + 1 else n)
      in n)"

definition calculate_churn_risk :: "patterns \<Rightarrow> string" where
  "calculate_churn_risk p =
     (if 4 \<le> risk_factors p then ''high''
      else if 2 \<le> risk_factors p then ''medium''
      else ''low'')"

text \<open>
  The running \<^verbatim>\<open>score\<close> of \<^verbatim>\<open>_calculate_growth_potential\<close> before the final
  \<^verbatim>\<open>min(100, score)\<close>.
\<close>

definition growth_raw :: "patterns \<Rightarrow> int" where
  "growth_raw p =
     (let score = 50;
          score = (if dict_get (revenue_patterns p) ''trend'' = PStr ''growing''
                   then score + 20 else score);
          score = (if dict_get (development_patterns p) ''activity_level'' = PStr ''very_active''
                   then score + 20 else score);
          score = (if dict_get (website_patterns p) ''traffic_trend'' = PStr ''growing''
                   then score + 10 else score)
      in score)"

definition calculate_growth_potential :: "patterns \<Rightarrow> int" where
  "calculate_growth_potential p = min 100 (growth_raw p)"

section \<open>Insights, recommendations and the per-account workflow\<close>

record insights =
  ai_analysis :: string
  user_type :: string
  health_score :: int
  churn_risk :: string
  growth_potential :: int

record recommendation =
  kind :: string
  priority :: string
  action :: string
  reason :: string
  impact :: string

record analysis =
  user_id :: string
  patterns_of :: patterns
  insights_of :: insights
  recommendations :: "recommendation list"

text \<open>
  The external services, over a state \<open>'w\<close> of the outside world that each call may
  read and change: the four queries of \<^verbatim>\<open>_fetch_user_data\<close>, the chat completion of
  \<^verbatim>\<open>_generate_ai_insights\<close> (its prompt is built from the user type, the key metrics
  and the pattern report) and the insert of \<^verbatim>\<open>_store_analysis\<close>. Time stamps are left
  out of the records.
\<close>

record 'w services =
  fetch_user_data :: "string \<Rightarrow> 'w \<Rightarrow> (error + user_data) \<times> 'w"
  chat_completion :: "string \<Rightarrow> dict \<Rightarrow> patterns \<Rightarrow> 'w \<Rightarrow> (error + string) \<times> 'w"
  store_analysis :: "string \<Rightarrow> insights \<Rightarrow> recommendation list \<Rightarrow> 'w \<Rightarrow> (error + unit) \<times> 'w"

definition extract_key_metrics :: "user_data \<Rightarrow> error + dict" where
  "extract_key_metrics data =
     ebind (if revenue data \<noteq> [] then subscript (last (revenue data)) ''revenue''
            else Inr (PInt 0)) (\<lambda>monthly_revenue.
     ebind (if website data \<noteq> []
            then ebind (sum_field ''daily_users''
                          (drop (length (website data) - 7) (website data))) (\<lambda>s.
                 ebind (py_truediv s 7) (\<lambda>q. Inr (PFloat q)))
            else Inr (PInt 0)) (\<lambda>avg_daily_users.
     Inr [(''lifetime_value'', get_or (customer data) ''lifetime_value'' (PInt 0)),
          (''total_repos'', get_or (developer data) ''total_repos'' (PInt 0)),
          (''monthly_revenue'', monthly_revenue),
          (''avg_daily_users'', avg_daily_users)]))"

definition generate_ai_insights ::
  "'w services \<Rightarrow> user_data \<Rightarrow> patterns \<Rightarrow> 'w \<Rightarrow> (error + insights) \<times> 'w" where
  "generate_ai_insights sv data p w =
     (case determine_user_type p of
        Inl e \<Rightarrow> (Inl e, w)
      | Inr ut \<Rightarrow>
          (case extract_key_metrics data of
             Inl e \<Rightarrow> (Inl e, w)
           | Inr key_metrics \<Rightarrow>
               (case chat_completion sv ut key_metrics p w of
                  (Inl e, w') \<Rightarrow> (Inl e, w')
                | (Inr answer, w') \<Rightarrow>
                    (Inr \<lparr>ai_analysis = answer, user_type = ut,
                          health_score = calculate_health_score p,
                          churn_risk = calculate_churn_risk p,
                          growth_potential = calculate_growth_potential p\<rparr>, w'))))"

definition create_recommendations :: "insights \<Rightarrow> recommendation list" where
  "create_recommendations ins =
     (if health_score ins < 70
      then [\<lparr>kind = ''revenue'', priority = ''high'',
             action = ''Schedule customer success call'',
             reason = ''Health score below threshold'',
             impact = ''Reduce churn risk by 40%''\<rparr>] else []) @
     (if user_type ins = ''developer''
      then [\<lparr>kind = ''development'', priority = ''medium'',
             action = ''Suggest code review automation'',
             reason = ''High PR volume detected'',
             impact = ''Save 5 hours per week''\<rparr>] else []) @
     (if 80 < growth_potential ins
      then [\<lparr>kind = ''growth'', priority = ''high'',
             action = ''Offer premium features'',
             reason = ''High engagement and growth potential'',
             impact = ''Potential 30% revenue increase''\<rparr>] else [])"

definition analyze_user_workflow ::
  "'w services \<Rightarrow> string \<Rightarrow> 'w \<Rightarrow> (error + analysis) \<times> 'w" where
  "analyze_user_workflow sv uid w =
     (case fetch_user_data sv uid w of
        (Inl e, w1) \<Rightarrow> (Inl e, w1)
      | (Inr data, w1) \<Rightarrow>
          (case analyze_patterns data of
             Inl e \<Rightarrow> (Inl e, w1)
           | Inr p \<Rightarrow>
               (case generate_ai_insights sv data p w1 of
                  (Inl e, w2) \<Rightarrow> (Inl e, w2)
                | (Inr ins, w2) \<Rightarrow>
                    (case store_analysis sv uid ins (create_recommendations ins) w2 of
                       (Inl e, w3) \<Rightarrow> (Inl e, w3)
                     | (Inr u, w3) \<Rightarrow>
                         (Inr \<lparr>user_id = uid, patterns_of = p, insights_of = ins,
                               recommendations = create_recommendations ins\<rparr>, w3)))))"

section \<open>The daily batch\<close>

text \<open>
  What the loop of \<^verbatim>\<open>run_daily_analysis\<close> prints, and the alerts it sends, in order.
  \<^verbatim>\<open>send_alert\<close> is a stub in the source (\<^verbatim>\<open>pass\<close>): it cannot fail and changes
  nothing, so the alert is only recorded.
\<close>

datatype event =
    Analyzing string
  | Alert string "recommendation list"
  | Complete string
  | Failed string error
  | Daily_Complete

definition get_active_users :: "string list" where
  "get_active_users = [''user_123'', ''user_456'', ''user_789'']"

text \<open>
  One iteration: the body of the \<^verbatim>\<open>try\<close>, and the \<^verbatim>\<open>except Exception\<close> clause that
  prints the error and continues.
\<close>

definition analyze_one :: "'w services \<Rightarrow> string \<Rightarrow> 'w \<Rightarrow> event list \<times> 'w" where
  "analyze_one sv uid w =
     (case analyze_user_workflow sv uid w of
        (Inl e, w') \<Rightarrow> ([Analyzing uid, Failed uid e], w')
      | (Inr results, w') \<Rightarrow>
          (let high_priority = filter (\<lambda>r. priority r = ''high'') (recommendations results)
           in if high_priority \<noteq> []
              then ([Analyzing uid, Alert uid high_priority, Complete uid], w')
              else ([Analyzing uid, Complete uid], w')))"

fun analysis_loop :: "'w services \<Rightarrow> string list \<Rightarrow> 'w \<Rightarrow> event list \<times> 'w" where
  "analysis_loop sv [] w = ([], w)"
| "analysis_loop sv (uid # rest) w =
     (case analyze_one sv uid w of
        (out1, w1) \<Rightarrow>
          (case analysis_loop sv rest w1 of
             (out2, w2) \<Rightarrow> (out1 @ out2, w2)))"

definition run_daily_analysis :: "'w services \<Rightarrow> 'w \<Rightarrow> event list \<times> 'w" where
  "run_daily_analysis sv w =
     (case analysis_loop sv get_active_users w of
        (out, w') \<Rightarrow> (out @ [Daily_Complete], w'))"

text \<open>The accounts a log shows as started, in order.\<close>

fun started :: "event list \<Rightarrow> string list" where
  "started [] = []"
| "started (Analyzing uid # es) = uid # started es"
| "started (e # es) = started es"

section \<open>The specification's wording\<close>

text \<open>
  The definitions of this section are not translations of the source. They spell out
  the specification's sentences, to be compared with the code above.
\<close>

definition mean :: "real list \<Rightarrow> real" where
  "mean xs = sum_list xs / real (length xs)"


text \<open>The health score and the growth potential with the revenue terms left out.\<close>

definition health_without_revenue :: "patterns \<Rightarrow> int" where
  "health_without_revenue p =
     max 0 (min 100
       (50
        + (if dict_get (customer_patterns p) ''engagement'' = PStr ''high'' then 15
           else if dict_get (customer_patterns p) ''engagement'' = PStr ''low'' then - 15
           else 0)
        + (if dict_get (development_patterns p) ''activity_level'' = PStr ''active''
              \<or> dict_get (development_patterns p) ''activity_level'' = PStr ''very_active''
           then 15 else 0)))"

definition growth_without_revenue :: "patterns \<Rightarrow> int" where
  "growth_without_revenue p =
     min 100
       (50
        + (if dict_get (development_patterns p) ''activity_level'' = PStr ''very_active''
           then 20 else 0)
        + (if dict_get (website_patterns p) ''traffic_trend'' = PStr ''growing''
           then 10 else 0))"


text \<open>The risk-factor count as a sum of three weights, and the order of the tiers.\<close>

definition risk_count :: "patterns \<Rightarrow> int" where
  "risk_count p =
     (if dict_get (revenue_patterns p) ''trend'' = PStr ''declining'' then 2 else 0)
     + (if dict_get (customer_patterns p) ''engagement'' = PStr ''low'' then 2 else 0)
     + (if dict_get (website_patterns p) ''engagement_quality'' = PStr ''low'' then 1 else 0)"

definition churn_tier :: "int \<Rightarrow> string" where
  "churn_tier n = (if 4 \<le> n then ''high'' else if 2 \<le> n then ''medium'' else ''low'')"

definition tier_rank :: "string \<Rightarrow> nat" where
  "tier_rank t = (if t = ''low'' then 0 else if t = ''medium'' then 1 else 2)"

text \<open>The day names for 0 to 6, and \<open>Unknown\<close> for every other integer.\<close>

definition day_label :: "int \<Rightarrow> string" where
  "day_label n =
     (if n = 0 then ''Sunday'' else if n = 1 then ''Monday'' else if n = 2 then ''Tuesday''
      else if n = 3 then ''Wednesday'' else if n = 4 then ''Thursday''
      else if n = 5 then ''Friday'' else if n = 6 then ''Saturday'' else ''Unknown'')"

text \<open>A field that is either missing or holds a number.\<close>

definition numeric_or_absent :: "dict \<Rightarrow> string \<Rightarrow> bool" where
  "numeric_or_absent d k = (case map_of d k of None \<Rightarrow> True | Some v \<Rightarrow> num_of v \<noteq> None)"

section \<open>Example snapshots and reports\<close>

text \<open>A developer with a productivity score of 60 and a monthly revenue of 2000.\<close>

definition founder_snapshot :: user_data where
  "founder_snapshot =
     \<lparr>customer = [], developer = [(''productivity_score'', PInt 60)],
      revenue = [[(''revenue'', PInt 2000), (''growth_rate'', PInt 5)]],
      website = []\<rparr>"

definition founder_report :: patterns where
  "founder_report =
     \<lparr>revenue_patterns =
        [(''trend'', PStr ''growing''), (''avg_growth_rate'', PFloat 5),
         (''seasonality'', PStr ''insufficient_data''),
         (''revenue_stability'', PStr ''stable''), (''current_mrr'', PInt 2000)],
      development_patterns =
        [(''activity_level'', PStr ''active''), (''pr_efficiency'', PStr ''efficient''),
         (''most_active_day'', PStr ''Sunday''), (''most_active_hour'', PInt 0),
         (''collaboration_style'', PStr ''passive'')],
      customer_patterns = [(''status'', PStr ''no_data'')],
      website_patterns = [(''status'', PStr ''no_data'')]\<rparr>"

text \<open>Two months of revenue, the first with a growth rate of 0, the second of 10.\<close>

definition flat_month_series :: "dict list" where
  "flat_month_series =
     [[(''revenue'', PInt 100), (''growth_rate'', PInt 0)],
      [(''revenue'', PInt 100), (''growth_rate'', PInt 10)]]"

text \<open>An account on which every bonus of both scores applies.\<close>

definition thriving_snapshot :: user_data where
  "thriving_snapshot =
     \<lparr>customer = [(''engagement_level'', PStr ''high'')],
      developer = [(''productivity_score'', PInt 120)],
      revenue = [[(''revenue'', PInt 2000), (''growth_rate'', PInt 5)]],
      website =
        [[(''daily_users'', PInt 100), (''bounce_rate'', PInt 40),
          (''sessions_per_user'', PInt 2), (''new_users'', PInt 10), (''users'', PInt 50)],
         [(''daily_users'', PInt 200), (''bounce_rate'', PInt 30),
          (''sessions_per_user'', PInt 1), (''new_users'', PInt 20), (''users'', PInt 80)]]\<rparr>"

definition thriving_report :: patterns where
  "thriving_report =
     \<lparr>revenue_patterns =
        [(''trend'', PStr ''growing''), (''avg_growth_rate'', PFloat 5),
         (''seasonality'', PStr ''insufficient_data''),
         (''revenue_stability'', PStr ''stable''), (''current_mrr'', PInt 2000)],
      development_patterns =
        [(''activity_level'', PStr ''very_active''), (''pr_efficiency'', PStr ''efficient''),
         (''most_active_day'', PStr ''Sunday''), (''most_active_hour'', PInt 0),
         (''collaboration_style'', PStr ''passive'')],
      customer_patterns =
        [(''customer_value'', PStr ''basic''), (''engagement'', PStr ''high''),
         (''purchase_frequency'', PStr ''occasional''), (''cross_platform'', PBool False)],
      website_patterns =
        [(''traffic_trend'', PStr ''growing''), (''engagement_quality'', PStr ''high''),
         (''user_retention'', PStr ''good''), (''growth_phase'', PStr ''mature_stage'')]\<rparr>"

text \<open>A report with no data in any category, and one with every risk factor.\<close>

definition quiet_report :: patterns where
  "quiet_report =
     \<lparr>revenue_patterns = [(''status'', PStr ''no_data'')],
      development_patterns = [(''status'', PStr ''no_data'')],
      customer_patterns = [(''status'', PStr ''no_data'')],
      website_patterns = [(''status'', PStr ''no_data'')]\<rparr>"

definition troubled_report :: patterns where
  "troubled_report =
     \<lparr>revenue_patterns =
        [(''trend'', PStr ''declining''), (''avg_growth_rate'', PFloat (- 30)),
         (''seasonality'', PStr ''insufficient_data''),
         (''revenue_stability'', PStr ''volatile''), (''current_mrr'', PInt 400)],
      development_patterns = [(''status'', PStr ''no_data'')],
      customer_patterns =
        [(''customer_value'', PStr ''basic''), (''engagement'', PStr ''low''),
         (''purchase_frequency'', PStr ''occasional''), (''cross_platform'', PBool False)],
      website_patterns =
        [(''traffic_trend'', PStr ''insufficient_data''), (''engagement_quality'', PStr ''low''),
         (''user_retention'', PStr ''needs_work''), (''growth_phase'', PStr ''mature_stage'')]\<rparr>"

text \<open>An account with no revenue rows.\<close>

definition dormant_snapshot :: user_data where
  "dormant_snapshot =
     \<lparr>customer = [(''engagement_level'', PStr ''high'')],
      developer = [(''productivity_score'', PInt 120)],
      revenue = [], website = []\<rparr>"

definition dormant_report :: patterns where
  "dormant_report =
     \<lparr>revenue_patterns = [(''status'', PStr ''no_data'')],
      development_patterns =
        [(''activity_level'', PStr ''very_active''), (''pr_efficiency'', PStr ''efficient''),
         (''most_active_day'', PStr ''Sunday''), (''most_active_hour'', PInt 0),
         (''collaboration_style'', PStr ''passive'')],
      customer_patterns =
        [(''customer_value'', PStr ''basic''), (''engagement'', PStr ''high''),
         (''purchase_frequency'', PStr ''occasional''), (''cross_platform'', PBool False)],
      website_patterns = [(''status'', PStr ''no_data'')]\<rparr>"

text \<open>
  Scenario A as the specification writes it: the two revenue entries hold a growth
  rate and nothing else.
\<close>

definition scenario_a_literal :: user_data where
  "scenario_a_literal =
     \<lparr>customer = [(''engagement_level'', PStr ''high'')],
      developer = [(''productivity_score'', PInt 60)],
      revenue = [[(''growth_rate'', PInt 5)], [(''growth_rate'', PInt 8)]],
      website = []\<rparr>"





text \<open>
  Services over a counter of the calls made. The store answers every account with
  \<open>founder_snapshot\<close>, except \<open>user_456\<close>, whose revenue rows lack the revenue field.
\<close>

definition flaky_services :: "nat services" where
  "flaky_services =
     \<lparr>fetch_user_data =
        (\<lambda>uid w. (Inr (if uid = ''user_456'' then scenario_a_literal else founder_snapshot),
                   Suc w)),
      chat_completion = (\<lambda>ut key_metrics p w. (Inr ''ok'', Suc w)),
      store_analysis = (\<lambda>uid ins recs w. (Inr (), Suc w))\<rparr>"

section \<open>Basic facts\<close>

lemmas eval_defs = subscript_def get_or_def dict_get_def py_gt_def py_lt_def py_truediv_def
  py_div_def py_index_def detect_seasonality_def categorize_activity_def categorize_ltv_def
  days_def day_name_def detect_trend_def new_user_ratio_of_def categorize_growth_def
  growth_rates_of_def analyze_revenue_patterns_def analyze_dev_patterns_def
  analyze_customer_patterns_def analyze_website_patterns_def analyze_patterns_def

lemma ebind_eq_Inr: "ebind m f = Inr y \<longleftrightarrow> (\<exists>x. m = Inr x \<and> f x = Inr y)"
  by (cases m) auto

lemma py_sum_nums: "map num_of vs = map Some xs \<Longrightarrow> py_sum vs = Inr (sum_list xs)"
  by (induction vs arbitrary: xs) auto

lemma analyze_patterns_Inr:
  "analyze_patterns s = Inr p \<longleftrightarrow>
     analyze_revenue_patterns (revenue s) = Inr (revenue_patterns p) \<and>
     analyze_dev_patterns (developer s) = Inr (development_patterns p) \<and>
     analyze_customer_patterns (customer s) = Inr (customer_patterns p) \<and>
     analyze_website_patterns (website s) = Inr (website_patterns p)"
  by (cases p) (auto simp: analyze_patterns_def ebind_eq_Inr)

lemma health_raw_bounds: "15 \<le> health_raw p \<and> health_raw p \<le> 100"
  by (simp add: health_raw_def Let_def)

lemma growth_raw_bounds: "50 \<le> growth_raw p \<and> growth_raw p \<le> 100"
  by (simp add: growth_raw_def Let_def)

section \<open>The user type\<close>

text \<open>
  The development pattern that the classifier builds has the keys \<open>activity_level\<close>,
  \<open>pr_efficiency\<close>, \<open>most_active_day\<close>, \<open>most_active_hour\<close> and \<open>collaboration_style\<close>
  (or \<open>status\<close> alone): it never has a \<open>productivity_score\<close>.
\<close>

lemma dev_patterns_no_score:
  "analyze_dev_patterns d = Inr dp \<Longrightarrow> map_of dp ''productivity_score'' = None"
  by (auto simp: analyze_dev_patterns_def ebind_eq_Inr split: if_splits)

text \<open>
  On a report whose two inputs are numbers, \<^verbatim>\<open>_determine_user_type\<close> follows the
  priority order of the specification.
\<close>

lemma determine_user_type_priority:
  assumes "num_of (get_or (development_patterns p) ''productivity_score'' (PInt 0)) = Some ds"
    and "num_of (get_or (revenue_patterns p) ''current_mrr'' (PInt 0)) = Some mrr"
  shows "determine_user_type p =
     Inr (if 50 < ds \<and> 1000 < mrr then ''technical_founder''
          else if 50 < ds then ''developer''
          else if 5000 < mrr then ''enterprise_customer''
          else if 500 < mrr then ''business_customer''
          else ''standard_user'')"
  using assms by (simp add: determine_user_type_def Let_def py_gt_def)

text \<open>
  C1. The claim: \<^verbatim>\<open>determine_user_type\<close> returns the first match of the order
  technical founder (productivity score above 50 and monthly revenue above 1000),
  developer (productivity score above 50), enterprise customer, business customer,
  standard user; in particular some snapshot whose developer record has a productivity
  score above 50 is classified as technical founder or developer.

  The code reads \<open>productivity_score\<close> from the development pattern, where only the
  derived \<open>activity_level\<close> is stored, so the score it sees is always the default 0:
  for every snapshot that the classifier accepts, the user type is neither
  \<open>technical_founder\<close> nor \<open>developer\<close>.
\<close>

theorem user_type_never_developer:
  assumes "analyze_patterns s = Inr p"
  shows "determine_user_type p \<noteq> Inr ''technical_founder'' \<and>
         determine_user_type p \<noteq> Inr ''developer''"
proof -
  have "map_of (development_patterns p) ''productivity_score'' = None"
    using assms by (auto simp: analyze_patterns_Inr intro: dev_patterns_no_score)
  then have "get_or (development_patterns p) ''productivity_score'' (PInt 0) = PInt 0"
    by (simp add: get_or_def)
  then show ?thesis
    by (auto simp: determine_user_type_def Let_def py_gt_def ebind_eq_Inr
        split: option.splits if_splits)
qed

text \<open>
  The snapshot \<open>founder_snapshot\<close> (productivity score 60, monthly revenue 2000) is
  classified as a business customer.
\<close>

theorem user_type_never_developer_witness:
  "analyze_patterns founder_snapshot = Inr founder_report \<and>
   determine_user_type founder_report = Inr ''business_customer'' \<and>
   determine_user_type founder_report \<noteq> Inr ''technical_founder'' \<and>
   determine_user_type founder_report \<noteq> Inr ''developer''"
proof -
  have h: "analyze_patterns founder_snapshot = Inr founder_report"
    by (simp add: founder_snapshot_def founder_report_def eval_defs)
  have "determine_user_type founder_report = Inr ''business_customer''"
    by (simp add: founder_report_def determine_user_type_def eval_defs)
  with h user_type_never_developer [OF h] show ?thesis by simp
qed

section \<open>The revenue pattern\<close>

text \<open>
  What the code computes: the mean over the growth rates that are true in a condition,
  that is, present, not \<^verbatim>\<open>None\<close> and not zero.
\<close>

lemma avg_growth_rate_code:
  assumes "analyze_revenue_patterns rs = Inr rp" and "rs \<noteq> []"
    and "map num_of (growth_rates_of rs) = map Some xs"
  shows "dict_get rp ''avg_growth_rate'' = (if xs = [] then PInt 0 else PFloat (mean xs))"
proof -
  have len: "length xs = length (growth_rates_of rs)"
    using assms(3) by (metis length_map)
  have "(growth_rates_of rs = []) = (xs = [])"
    using len by auto
  with assms(1,2) show ?thesis
    by (auto simp: analyze_revenue_patterns_def Let_def ebind_eq_Inr py_sum_nums [OF assms(3)]
        py_truediv_def mean_def len dict_get_def get_or_def split: if_splits)
qed

text \<open>
  C2. The claim: for a non-empty revenue series, \<open>avg_growth_rate\<close> is the arithmetic
  mean of the growth rates of exactly the entries that have one, those equal to 0
  included.

  On \<open>flat_month_series\<close> both entries have a growth rate, 0 and 10, whose mean is 5.
  The code filters on the truth value of the field, which drops the 0, and returns 10.
\<close>

theorem avg_growth_rate_drops_zero:
  "analyze_revenue_patterns flat_month_series =
     Inr [(''trend'', PStr ''growing''), (''avg_growth_rate'', PFloat 10),
          (''seasonality'', PStr ''insufficient_data''),
          (''revenue_stability'', PStr ''stable''), (''current_mrr'', PInt 100)] \<and>
   map (\<lambda>r. map_of r ''growth_rate'') flat_month_series = [Some (PInt 0), Some (PInt 10)] \<and>
   mean [0, 10] = 5"
  by (simp add: flat_month_series_def eval_defs mean_def)

section \<open>Health score and growth potential\<close>

text \<open>
  C3. For every input snapshot, however many bonuses or penalties apply, the returned
  health score and growth potential are integers between 0 and 100.
\<close>

theorem scores_in_range:
  assumes "analyze_patterns s = Inr p"
  shows "0 \<le> calculate_health_score p \<and> calculate_health_score p \<le> 100 \<and>
         0 \<le> calculate_growth_potential p \<and> calculate_growth_potential p \<le> 100"
  using health_raw_bounds [of p] growth_raw_bounds [of p]
  by (simp add: calculate_health_score_def calculate_growth_potential_def)

text \<open>On \<open>thriving_snapshot\<close> every bonus applies and both scores are 100.\<close>

theorem scores_in_range_witness:
  "analyze_patterns thriving_snapshot = Inr thriving_report \<and>
   calculate_health_score thriving_report = 100 \<and>
   calculate_growth_potential thriving_report = 100 \<and>
   0 \<le> calculate_health_score thriving_report \<and>
   calculate_health_score thriving_report \<le> 100 \<and>
   0 \<le> calculate_growth_potential thriving_report \<and>
   calculate_growth_potential thriving_report \<le> 100"
proof -
  have h: "analyze_patterns thriving_snapshot = Inr thriving_report"
    by (simp add: thriving_snapshot_def thriving_report_def eval_defs)
  have "calculate_health_score thriving_report = 100"
    by (simp add: thriving_report_def calculate_health_score_def health_raw_def dict_get_def
        get_or_def)
  moreover have "calculate_growth_potential thriving_report = 100"
    by (simp add: thriving_report_def calculate_growth_potential_def growth_raw_def
        dict_get_def get_or_def)
  ultimately show ?thesis
    using h scores_in_range [OF h] by simp
qed

text \<open>
  C10. For every pattern report, the score before the clamp lies between 15 and 100
  for the health score and between 50 and 100 for the growth potential, so neither
  clamp changes the value: the health score is never below 15 and the growth potential
  (which has no downward adjustment and no lower clamp) never below 50.
\<close>

theorem scores_never_clamped:
  "15 \<le> health_raw p \<and> health_raw p \<le> 100 \<and>
   50 \<le> growth_raw p \<and> growth_raw p \<le> 100 \<and>
   calculate_health_score p = health_raw p \<and>
   calculate_growth_potential p = growth_raw p \<and>
   15 \<le> calculate_health_score p \<and> 50 \<le> calculate_growth_potential p"
  using health_raw_bounds [of p] growth_raw_bounds [of p]
  by (simp add: calculate_health_score_def calculate_growth_potential_def)

section \<open>Churn risk\<close>

lemma risk_factors_count: "risk_factors p = risk_count p"
  by (simp add: risk_factors_def risk_count_def Let_def)

lemma churn_tier_mono: "m \<le> n \<Longrightarrow> tier_rank (churn_tier m) \<le> tier_rank (churn_tier n)"
  by (simp add: churn_tier_def tier_rank_def)

text \<open>
  C4. For every pattern report, the churn risk is the tier of a count that adds 2 for a
  declining revenue trend, 2 for a low customer engagement and 1 for a low website
  engagement quality, with a count of 4 or more mapped to high, of 2 or more to medium,
  and anything else to low. The churn risk is therefore monotone in the count: 0 and 1
  give low, 2 and 3 medium, 4 and more high.
\<close>

theorem churn_risk_tiers:
  "risk_factors p = risk_count p \<and>
   calculate_churn_risk p = churn_tier (risk_count p) \<and>
   0 \<le> risk_count p \<and> risk_count p \<le> 5 \<and>
   (risk_count p \<le> risk_count q \<longrightarrow>
      tier_rank (calculate_churn_risk p) \<le> tier_rank (calculate_churn_risk q)) \<and>
   (calculate_churn_risk p = ''low'') = (risk_count p \<le> 1) \<and>
   (calculate_churn_risk p = ''medium'') = (2 \<le> risk_count p \<and> risk_count p \<le> 3) \<and>
   (calculate_churn_risk p = ''high'') = (4 \<le> risk_count p)"
proof -
  have c: "calculate_churn_risk r = churn_tier (risk_count r)" for r
    by (simp add: calculate_churn_risk_def churn_tier_def risk_factors_count)
  have "0 \<le> risk_count p \<and> risk_count p \<le> 5"
    by (simp add: risk_count_def)
  moreover have "risk_count p \<le> risk_count q \<longrightarrow>
      tier_rank (calculate_churn_risk p) \<le> tier_rank (calculate_churn_risk q)"
    by (simp add: c churn_tier_mono)
  moreover have "(churn_tier (risk_count p) = ''low'') = (risk_count p \<le> 1)"
    "(churn_tier (risk_count p) = ''medium'') = (2 \<le> risk_count p \<and> risk_count p \<le> 3)"
    "(churn_tier (risk_count p) = ''high'') = (4 \<le> risk_count p)"
    by (auto simp: churn_tier_def)
  ultimately show ?thesis
    by (simp add: c risk_factors_count)
qed

text \<open>A report with no risk factor is low, one with all three (count 5) is high.\<close>

theorem churn_risk_tiers_witness:
  "risk_count quiet_report = 0 \<and> risk_count troubled_report = 5 \<and>
   calculate_churn_risk quiet_report = ''low'' \<and>
   calculate_churn_risk troubled_report = ''high'' \<and>
   risk_count quiet_report \<le> risk_count troubled_report \<and>
   tier_rank (calculate_churn_risk quiet_report)
     \<le> tier_rank (calculate_churn_risk troubled_report)"
proof -
  have q: "risk_count quiet_report = 0"
    by (simp add: risk_count_def quiet_report_def dict_get_def get_or_def)
  have t: "risk_count troubled_report = 5"
    by (simp add: risk_count_def troubled_report_def dict_get_def get_or_def)
  show ?thesis
    using churn_risk_tiers [of quiet_report troubled_report]
      churn_risk_tiers [of troubled_report quiet_report] q t
    by (simp add: churn_tier_def tier_rank_def)
qed

section \<open>An empty revenue series\<close>

text \<open>
  The scores with the revenue terms left out are the scores the code gives to the same
  report with an empty revenue category.
\<close>

lemma health_without_revenue_code:
  "health_without_revenue p = calculate_health_score (p\<lparr>revenue_patterns := []\<rparr>)"
  by (simp add: health_without_revenue_def calculate_health_score_def health_raw_def Let_def
      dict_get_def get_or_def)

lemma growth_without_revenue_code:
  "growth_without_revenue p = calculate_growth_potential (p\<lparr>revenue_patterns := []\<rparr>)"
  by (simp add: growth_without_revenue_def calculate_growth_potential_def growth_raw_def Let_def
      dict_get_def get_or_def)

text \<open>
  C5. For every snapshot with an empty revenue series, the revenue pattern consists
  solely of \<open>status = no_data\<close>, and the health score and the growth potential are
  what they would be with every revenue-dependent bonus and penalty absent.
\<close>

theorem empty_revenue_neutral:
  assumes "revenue s = []" and "analyze_patterns s = Inr p"
  shows "analyze_revenue_patterns (revenue s) = Inr [(''status'', PStr ''no_data'')] \<and>
         revenue_patterns p = [(''status'', PStr ''no_data'')] \<and>
         calculate_health_score p = health_without_revenue p \<and>
         calculate_growth_potential p = growth_without_revenue p"
proof -
  have r: "analyze_revenue_patterns (revenue s) = Inr [(''status'', PStr ''no_data'')]"
    using assms(1) by (simp add: analyze_revenue_patterns_def)
  then have rp: "revenue_patterns p = [(''status'', PStr ''no_data'')]"
    using assms(2) by (simp add: analyze_patterns_Inr)
  have "dict_get (revenue_patterns p) ''trend'' = PNone"
    by (simp add: rp dict_get_def get_or_def)
  then have "calculate_health_score p = health_without_revenue p"
    and "calculate_growth_potential p = growth_without_revenue p"
    by (simp_all add: calculate_health_score_def health_raw_def health_without_revenue_def
        calculate_growth_potential_def growth_raw_def growth_without_revenue_def Let_def)
  with r rp show ?thesis by simp
qed

text \<open>On \<open>dormant_snapshot\<close> the scores are 50 + 15 + 15 and 50 + 20.\<close>

theorem empty_revenue_neutral_witness:
  "revenue dormant_snapshot = [] \<and>
   analyze_patterns dormant_snapshot = Inr dormant_report \<and>
   revenue_patterns dormant_report = [(''status'', PStr ''no_data'')] \<and>
   calculate_health_score dormant_report = 80 \<and>
   health_without_revenue dormant_report = 80 \<and>
   calculate_growth_potential dormant_report = 70 \<and>
   growth_without_revenue dormant_report = 70"
proof -
  have e: "revenue dormant_snapshot = []"
    by (simp add: dormant_snapshot_def)
  have h: "analyze_patterns dormant_snapshot = Inr dormant_report"
    by (simp add: dormant_snapshot_def dormant_report_def eval_defs)
  have "health_without_revenue dormant_report = 80"
    by (simp add: dormant_report_def health_without_revenue_def dict_get_def get_or_def)
  moreover have "growth_without_revenue dormant_report = 70"
    by (simp add: dormant_report_def growth_without_revenue_def dict_get_def get_or_def)
  ultimately show ?thesis
    using e h empty_revenue_neutral [OF e h] by simp
qed

section \<open>Scenario A\<close>




section \<open>The traffic trend\<close>









section \<open>The day name\<close>

lemma day_range: "0 \<le> n \<and> n \<le> 6 \<Longrightarrow> n \<in> {0, 1, 2, 3, 4, 5, 6 :: int}"
  by auto

lemma day_name_int: "day_name (PInt n) = Inr (day_label n)"
proof (cases "0 \<le> n \<and> n \<le> 6")
  case True
  from day_range [OF this] show ?thesis
    by (auto simp: day_name_def day_label_def py_index_def days_def)
next
  case False
  then show ?thesis
    by (auto simp: day_name_def day_label_def)
qed

lemma numeric_or_absent_default:
  "numeric_or_absent d k \<Longrightarrow> \<exists>x. num_of (get_or d k (PInt 0)) = Some x"
  by (auto simp: numeric_or_absent_def get_or_def split: option.splits)

lemma categorize_activity_total:
  "num_of v = Some x \<Longrightarrow> \<exists>a. categorize_activity v = Inr a"
  by (simp add: categorize_activity_def py_gt_def)

text \<open>
  C8. For every integer \<open>most_active_day\<close> outside 0 to 6 (9, say) the label of the
  development pattern is \<open>Unknown\<close> and nothing is raised; for 0 to 6 it is the day
  name, Sunday to Saturday: the lookup is total on the integers.
\<close>

theorem day_name_total:
  "day_name (PInt n) = Inr (day_label n) \<and>
   (n < 0 \<or> 6 < n \<longrightarrow> day_label n = ''Unknown'') \<and>
   (0 \<le> n \<and> n \<le> 6 \<longrightarrow> day_label n = days ! nat n) \<and>
   (dev \<noteq> [] \<and> map_of dev ''most_active_day'' = Some (PInt n) \<and>
    numeric_or_absent dev ''productivity_score'' \<and>
    numeric_or_absent dev ''avg_pr_merge_time'' \<and>
    numeric_or_absent dev ''total_prs'' \<longrightarrow>
      (\<exists>dp. analyze_dev_patterns dev = Inr dp \<and>
            dict_get dp ''most_active_day'' = PStr (day_label n)))"
proof -
  have unknown: "n < 0 \<or> 6 < n \<longrightarrow> day_label n = ''Unknown''"
    by (auto simp: day_label_def)
  have named: "0 \<le> n \<and> n \<le> 6 \<longrightarrow> day_label n = days ! nat n"
  proof
    assume "0 \<le> n \<and> n \<le> 6"
    from day_range [OF this] show "day_label n = days ! nat n"
      by (auto simp: day_label_def days_def)
  qed
  have pattern: "\<exists>dp. analyze_dev_patterns dev = Inr dp \<and>
            dict_get dp ''most_active_day'' = PStr (day_label n)"
    if prem: "dev \<noteq> []" "map_of dev ''most_active_day'' = Some (PInt n)"
      "numeric_or_absent dev ''productivity_score''"
      "numeric_or_absent dev ''avg_pr_merge_time''"
      "numeric_or_absent dev ''total_prs''"
  proof -
    obtain x where "num_of (get_or dev ''productivity_score'' (PInt 0)) = Some x"
      using numeric_or_absent_default [OF prem(3)] by blast
    then obtain a where a: "categorize_activity (get_or dev ''productivity_score'' (PInt 0)) = Inr a"
      using categorize_activity_total by blast
    obtain y where y: "num_of (get_or dev ''avg_pr_merge_time'' (PInt 0)) = Some y"
      using numeric_or_absent_default [OF prem(4)] by blast
    obtain z where z: "num_of (get_or dev ''total_prs'' (PInt 0)) = Some z"
      using numeric_or_absent_default [OF prem(5)] by blast
    have d: "get_or dev ''most_active_day'' (PInt 0) = PInt n"
      using prem(2) by (simp add: get_or_def)
    have "analyze_dev_patterns dev =
        Inr [(''activity_level'', PStr a),
             (''pr_efficiency'', PStr (if y < 2 then ''efficient'' else ''needs_improvement'')),
             (''most_active_day'', PStr (day_label n)),
             (''most_active_hour'', get_or dev ''most_active_hour'' (PInt 0)),
             (''collaboration_style'', PStr (if 10 < z then ''active'' else ''passive''))]"
      using prem(1)
      by (simp add: analyze_dev_patterns_def a y z d day_name_int py_lt_def py_gt_def)
    then show ?thesis
      by (simp add: dict_get_def get_or_def)
  qed
  show ?thesis
    using day_name_int [of n] unknown named pattern by blast
qed

text \<open>Day 9 is \<open>Unknown\<close>, day 3 is Wednesday.\<close>

theorem day_name_total_witness:
  "day_name (PInt 9) = Inr ''Unknown'' \<and>
   day_name (PInt 3) = Inr ''Wednesday'' \<and>
   day_name (PInt (- 1)) = Inr ''Unknown'' \<and>
   analyze_dev_patterns [(''most_active_day'', PInt 9)] =
     Inr [(''activity_level'', PStr ''low''), (''pr_efficiency'', PStr ''efficient''),
          (''most_active_day'', PStr ''Unknown''), (''most_active_hour'', PInt 0),
          (''collaboration_style'', PStr ''passive'')]"
proof -
  have l: "day_label 9 = ''Unknown''" "day_label 3 = ''Wednesday''" "day_label (- 1) = ''Unknown''"
    by (simp_all add: day_label_def)
  have e: "analyze_dev_patterns [(''most_active_day'', PInt 9)] =
     Inr [(''activity_level'', PStr ''low''), (''pr_efficiency'', PStr ''efficient''),
          (''most_active_day'', PStr ''Unknown''), (''most_active_hour'', PInt 0),
          (''collaboration_style'', PStr ''passive'')]"
    by (simp add: eval_defs)
  show ?thesis
    using day_name_total [of 9 "[(''most_active_day'', PInt 9)]"] day_name_total [of 3 "[]"]
      day_name_total [of "- 1" "[]"] l e
    by simp
qed

section \<open>Failures in the daily batch\<close>

lemma started_append: "started (xs @ ys) = started xs @ started ys"
  by (induction xs rule: started.induct) simp_all

lemma started_analyze_one: "started (fst (analyze_one sv uid w)) = [uid]"
  by (simp add: analyze_one_def Let_def split: prod.splits sum.splits)

lemma started_analysis_loop: "started (fst (analysis_loop sv users w)) = users"
proof (induction users arbitrary: w)
  case Nil
  show ?case by simp
next
  case (Cons uid rest)
  obtain out1 w1 where one: "analyze_one sv uid w = (out1, w1)"
    by (cases "analyze_one sv uid w")
  obtain out2 w2 where two: "analysis_loop sv rest w1 = (out2, w2)"
    by (cases "analysis_loop sv rest w1")
  have "started out1 = [uid]"
    using started_analyze_one [of sv uid w] one by simp
  moreover have "started out2 = rest"
    using Cons.IH [of w1] two by simp
  ultimately show ?case
    by (simp add: one two started_append)
qed

lemma analysis_loop_append:
  "analysis_loop sv (before @ rest) w =
     (fst (analysis_loop sv before w) @
        fst (analysis_loop sv rest (snd (analysis_loop sv before w))),
      snd (analysis_loop sv rest (snd (analysis_loop sv before w))))"
  by (induction before arbitrary: w) (simp_all split: prod.splits)

lemma analyze_one_failure:
  assumes "fst (analyze_user_workflow sv uid w) = Inl e"
  shows "analyze_one sv uid w =
    ([Analyzing uid, Failed uid e], snd (analyze_user_workflow sv uid w))"
  using assms by (cases "analyze_user_workflow sv uid w") (simp add: analyze_one_def)

text \<open>
  C9. Whatever the list of accounts, when the analysis of one account raises, the error
  is caught at the loop boundary and every later account is still processed: one
  account's failure never aborts the batch. The loop itself returns a log and never an
  error; every account of the list is started, in order; a failing account leaves its
  start and its error in the log, and the rest of the list is processed after it.
\<close>

theorem batch_survives_failures:
  "started (fst (analysis_loop sv users w)) = users \<and>
   (fst (analyze_user_workflow sv uid w) = Inl e \<longrightarrow>
      analyze_one sv uid w =
        ([Analyzing uid, Failed uid e], snd (analyze_user_workflow sv uid w)) \<and>
      fst (analysis_loop sv (uid # rest) w) =
        Analyzing uid # Failed uid e #
          fst (analysis_loop sv rest (snd (analyze_user_workflow sv uid w))) \<and>
      started (fst (analysis_loop sv rest (snd (analyze_user_workflow sv uid w)))) = rest) \<and>
   fst (analysis_loop sv (before @ rest) w) =
     fst (analysis_loop sv before w) @
       fst (analysis_loop sv rest (snd (analysis_loop sv before w))) \<and>
   fst (run_daily_analysis sv w) = fst (analysis_loop sv get_active_users w) @ [Daily_Complete] \<and>
   started (fst (run_daily_analysis sv w)) = get_active_users"
proof -
  have fail: "fst (analysis_loop sv (uid # rest) w) =
        Analyzing uid # Failed uid e #
          fst (analysis_loop sv rest (snd (analyze_user_workflow sv uid w)))"
    if "fst (analyze_user_workflow sv uid w) = Inl e"
    by (simp add: analyze_one_failure [OF that] split: prod.splits)
  have daily: "fst (run_daily_analysis sv w) =
      fst (analysis_loop sv get_active_users w) @ [Daily_Complete]"
    by (simp add: run_daily_analysis_def split: prod.splits)
  have "started (fst (run_daily_analysis sv w)) = get_active_users"
    by (simp add: daily started_append started_analysis_loop)
  with fail daily show ?thesis
    by (simp add: started_analysis_loop analyze_one_failure analysis_loop_append)
qed

text \<open>
  With \<open>flaky_services\<close> the second of the three accounts raises \<^verbatim>\<open>KeyError\<close> during
  scoring; the third is analysed all the same and the batch completes.
\<close>

theorem batch_survives_failures_witness:
  "fst (analyze_user_workflow flaky_services ''user_456'' 3) = Inl (KeyError ''revenue'') \<and>
   run_daily_analysis flaky_services 0 =
     ([Analyzing ''user_123'', Complete ''user_123'',
       Analyzing ''user_456'', Failed ''user_456'' (KeyError ''revenue''),
       Analyzing ''user_789'', Complete ''user_789'', Daily_Complete], 7) \<and>
   started (fst (analysis_loop flaky_services get_active_users 0)) = get_active_users \<and>
   fst (analysis_loop flaky_services [''user_456'', ''user_789''] 3) =
     [Analyzing ''user_456'', Failed ''user_456'' (KeyError ''revenue''),
      Analyzing ''user_789'', Complete ''user_789'']"
proof -
  have lit: "analyze_patterns scenario_a_literal = Inl (KeyError ''revenue'')"
    by (simp add: scenario_a_literal_def eval_defs)
  have ok: "analyze_patterns founder_snapshot = Inr founder_report"
    by (simp add: founder_snapshot_def founder_report_def eval_defs)
  have ut: "determine_user_type founder_report = Inr ''business_customer''"
    by (simp add: founder_report_def determine_user_type_def eval_defs)
  have km: "\<exists>m. extract_key_metrics founder_snapshot = Inr m"
    by (simp add: founder_snapshot_def extract_key_metrics_def eval_defs)
  have hs: "calculate_health_score founder_report = 85"
    by (simp add: founder_report_def calculate_health_score_def health_raw_def dict_get_def
        get_or_def)
  have gp: "calculate_growth_potential founder_report = 70"
    by (simp add: founder_report_def calculate_growth_potential_def growth_raw_def dict_get_def
        get_or_def)
  have bad: "analyze_user_workflow flaky_services ''user_456'' w = (Inl (KeyError ''revenue''), Suc w)"
    for w
    by (simp add: analyze_user_workflow_def flaky_services_def lit)
  have good: "analyze_one flaky_services uid w = ([Analyzing uid, Complete uid], w + 3)"
    if "uid \<noteq> ''user_456''" for uid w
    using that km
    by (auto simp: analyze_one_def analyze_user_workflow_def flaky_services_def ok
        generate_ai_insights_def ut hs gp create_recommendations_def)
  have bad1: "analyze_one flaky_services ''user_456'' w =
      ([Analyzing ''user_456'', Failed ''user_456'' (KeyError ''revenue'')], Suc w)" for w
    by (simp add: analyze_one_def bad)
  have f: "fst (analyze_user_workflow flaky_services ''user_456'' 3) = Inl (KeyError ''revenue'')"
    by (simp add: bad)
  have run: "run_daily_analysis flaky_services 0 =
     ([Analyzing ''user_123'', Complete ''user_123'',
       Analyzing ''user_456'', Failed ''user_456'' (KeyError ''revenue''),
       Analyzing ''user_789'', Complete ''user_789'', Daily_Complete], 7)"
    by (simp add: run_daily_analysis_def get_active_users_def good bad1)
  have tail: "fst (analysis_loop flaky_services [''user_789''] 4) =
      [Analyzing ''user_789'', Complete ''user_789'']"
    by (simp add: good)
  have w4: "snd (analyze_user_workflow flaky_services ''user_456'' 3) = 4"
    by (simp add: bad)
  from batch_survives_failures [of flaky_services get_active_users 0]
  have st: "started (fst (analysis_loop flaky_services get_active_users 0)) = get_active_users"
    by blast
  from batch_survives_failures
    [of flaky_services "[]" 3 "''user_456''" "KeyError ''revenue''" "[''user_789'']" "[]"] f
  have "fst (analysis_loop flaky_services (''user_456'' # [''user_789'']) 3) =
      Analyzing ''user_456'' # Failed ''user_456'' (KeyError ''revenue'') #
        fst (analysis_loop flaky_services [''user_789'']
          (snd (analyze_user_workflow flaky_services ''user_456'' 3)))"
    by blast
  then have loop2: "fst (analysis_loop flaky_services [''user_456'', ''user_789''] 3) =
     [Analyzing ''user_456'', Failed ''user_456'' (KeyError ''revenue''),
      Analyzing ''user_789'', Complete ''user_789'']"
    by (simp only: w4 tail)
  from f run st loop2 show ?thesis
    by blast
qed

end
